theory Spec2Isabelle
  imports Complex_Main
begin

section \<open>The synthetic credit-risk data generator (script.py)\<close>

text \<open>
  The script draws three tables from numpy's process-wide generator, scores every borrower
  with \<open>calculate_default_probability\<close>, and writes three CSV files and a text file.

  Modelling decisions:
  \<^item> Python floats are modelled as \<open>real\<close>, decimal literals as the exact rationals they
    denote, in the model of the whole run; Python integers as \<open>int\<close>, numpy's int64 columns
    as \<open>int\<close> with the conversion from float64 written out.
  \<^item> The scoring function is modelled a second time in double precision, every literal and
    every sum rounded as Python rounds it, for the property that is about the exact value of
    a sum.
  \<^item> numpy's global generator is not part of the script. It is a parameter: a record of its
    sampling functions over an abstract generator state, each taking the state and returning
    the variate and the next state.
  \<^item> \<open>datetime.now()\<close> is a parameter as well: the reading of the clock at the k-th call, in
    microseconds.
\<close>

subsection \<open>The random generator and the clock\<close>

record 's np_random =
  seed :: "int \<Rightarrow> 's"
  normal :: "real \<Rightarrow> real \<Rightarrow> 's \<Rightarrow> real \<times> 's"
  lognormal :: "real \<Rightarrow> real \<Rightarrow> 's \<Rightarrow> real \<times> 's"
  choice_str :: "string list \<Rightarrow> real list \<Rightarrow> 's \<Rightarrow> string \<times> 's"
  choice_int :: "int list \<Rightarrow> real list \<Rightarrow> 's \<Rightarrow> int \<times> 's"
  poisson :: "real \<Rightarrow> 's \<Rightarrow> int \<times> 's"
  exponential :: "real \<Rightarrow> 's \<Rightarrow> real \<times> 's"
  beta :: "real \<Rightarrow> real \<Rightarrow> 's \<Rightarrow> real \<times> 's"
  binomial :: "int \<Rightarrow> real \<Rightarrow> 's \<Rightarrow> int \<times> 's"
  randint :: "int \<Rightarrow> int \<Rightarrow> 's \<Rightarrow> int \<times> 's"
  random :: "'s \<Rightarrow> real \<times> 's"

text \<open>A call with a size argument, such as \<open>np.random.normal(35, 10, n)\<close>, and a list
  comprehension calling the generator once per element, both make n draws in sequence.\<close>

fun draws :: "('s \<Rightarrow> 'a \<times> 's) \<Rightarrow> nat \<Rightarrow> 's \<Rightarrow> 'a list \<times> 's" where
  "draws f 0 s = ([], s)"
| "draws f (Suc n) s =
     (case f s of (x, s1) \<Rightarrow> (case draws f n s1 of (xs, s2) \<Rightarrow> (x # xs, s2)))"

text \<open>\<open>.astype(int)\<close> on a float64 array converts to int64. The value is truncated towards
  zero; a value whose truncation does not fit 64 bits becomes the least int64, which is what
  the conversion instruction of x86-64 delivers.\<close>

definition astype_int :: "real \<Rightarrow> int" where
  "astype_int x =
    (let t = (if 0 \<le> x then \<lfloor>x\<rfloor> else - \<lfloor>- x\<rfloor>)
     in if - 9223372036854775808 \<le> t \<and> t < 9223372036854775808 then t
        else - 9223372036854775808)"

text \<open>\<open>np.clip(a, lo, hi)\<close>, elementwise \<open>minimum(maximum(a, lo), hi)\<close>.\<close>

definition clip :: "('a::linorder) list \<Rightarrow> 'a \<Rightarrow> 'a \<Rightarrow> 'a list" where
  "clip a lo hi = map (\<lambda>x. min (max x lo) hi) a"

subsection \<open>Rows\<close>

record borrower_row =
  borrower_id :: string
  age :: int
  income :: int
  employment_type :: string
  city_tier :: string
  education :: string
  existing_loans :: int
  credit_history_months :: int
  bank_account_age_months :: int

record alt_row =
  alt_borrower_id :: string
  upi_transactions_monthly :: int
  utility_bill_payment_consistency :: real
  gst_returns_filed :: int
  mobile_recharge_frequency :: int
  ecommerce_transactions_monthly :: int
  digital_wallet_balance_avg :: int
  social_media_financial_mentions :: int
  app_usage_financial_minutes_daily :: int
  location_stability_score :: real

subsection \<open>The scoring heuristic\<close>

text \<open>The value of \<open>risk_score\<close> when line 94 is reached: the adjustments of lines 61 to 91,
  accumulated in the order of the source.\<close>

definition risk_adjustments :: "borrower_row \<Rightarrow> alt_row \<Rightarrow> real" where
  "risk_adjustments row alt =
    (let risk_score = 0;
         risk_score = (if 25 \<le> age row \<and> age row \<le> 45 then risk_score - 0.1
                       else risk_score + 0.05);
         risk_score = (if income row > 50000 then risk_score - 0.15
                       else if income row < 25000 then risk_score + 0.2
                       else risk_score);
         risk_score = (if employment_type row = ''Salaried'' then risk_score - 0.1
                       else if employment_type row = ''Self-Employed'' then risk_score + 0.05
                       else risk_score);
         risk_score = (if utility_bill_payment_consistency alt > 0.8 then risk_score - 0.1
                       else risk_score);
         risk_score = (if upi_transactions_monthly alt > 30 then risk_score - 0.05
                       else risk_score);
         risk_score = (if location_stability_score alt > 0.7 then risk_score - 0.08
                       else risk_score);
         risk_score = (if credit_history_months row > 24 then risk_score - 0.1
                       else risk_score)
     in risk_score)"

text \<open>Line 96, the returned expression, for a given final \<open>risk_score\<close>.\<close>

definition bounded :: "real \<Rightarrow> real" where
  "bounded risk_score = max 0.02 (min 0.95 (0.15 + risk_score))"

text \<open>The function itself: line 94 draws the noise from the global generator, so the
  function takes the generator state and returns the next one with its result.\<close>

definition calculate_default_probability ::
  "'s np_random \<Rightarrow> borrower_row \<Rightarrow> alt_row \<Rightarrow> 's \<Rightarrow> real \<times> 's" where
  "calculate_default_probability G row alt s =
    (case normal G 0 0.1 s of
       (noise, s1) \<Rightarrow> (bounded (risk_adjustments row alt + noise), s1))"

subsection \<open>The scoring heuristic in double precision\<close>

text \<open>Python's float and numpy's float64 are IEEE binary64: every decimal literal and every
  sum is rounded to the nearest binary64 value, ties to the even significand. A finite
  binary64 value is written as a pair \<open>(m, e)\<close> of integers that stands for \<open>m * 2 ^ e\<close>.
  Infinities and NaN are left out; no sum of the heuristic overflows, its terms being
  below 1 apart from the noise, which is finite.\<close>

type_synonym binary64 = "int \<times> int"

definition valof :: "binary64 \<Rightarrow> real" where
  "valof x =
    (case x of (m, e) \<Rightarrow>
       if 0 \<le> e then real_of_int m * 2 ^ nat e else real_of_int m / 2 ^ nat (- e))"

text \<open>The number of binary digits of a natural number, \<open>int.bit_length\<close>.\<close>

fun bit_length :: "nat \<Rightarrow> nat" where
  "bit_length n = (if n = 0 then 0 else Suc (bit_length (n div 2)))"

declare bit_length.simps [simp del]

text \<open>The integer nearest to \<open>p / q\<close> for \<open>q > 0\<close>, the even one of two that are equally near.\<close>

definition round_half_even :: "int \<Rightarrow> int \<Rightarrow> int" where
  "round_half_even p q =
    (let f = p div q; r = p mod q
     in if 2 * r < q then f
        else if q < 2 * r then f + 1
        else if even f then f else f + 1)"

text \<open>The binary64 value nearest to the rational \<open>p / q\<close>, \<open>q > 0\<close>. With \<open>k\<close> the difference of
  the bit lengths, \<open>\<bar>p\<bar> / q\<close> lies between \<open>2 ^ (k - 1)\<close> and \<open>2 ^ (k + 1)\<close>, so the exponent
  \<open>fl\<close> of its leading binary digit is \<open>k\<close> or \<open>k - 1\<close>. The significand has 53 digits, hence the
  unit \<open>2 ^ (fl - 52)\<close>, and never less than \<open>2 ^ - 1074\<close>, the unit of the subnormal values.\<close>

definition round_binary64 :: "int \<Rightarrow> int \<Rightarrow> binary64" where
  "round_binary64 p q =
    (if p = 0 then (0, 0)
     else
       let k = int (bit_length (nat \<bar>p\<bar>)) - int (bit_length (nat q));
           fl = (if (if 0 \<le> k then q * 2 ^ nat k \<le> \<bar>p\<bar> else q \<le> \<bar>p\<bar> * 2 ^ nat (- k))
                 then k else k - 1);
           e = max (fl - 52) (- 1074)
       in if 0 \<le> e then (round_half_even p (q * 2 ^ nat e), e)
          else (round_half_even (p * 2 ^ nat (- e)) q, e))"

text \<open>The decimal literal with digits \<open>d\<close> and \<open>k\<close> places after the point: \<open>literal 15 2\<close> is
  what Python reads for \<open>0.15\<close>.\<close>

definition literal :: "int \<Rightarrow> nat \<Rightarrow> binary64" where
  "literal d k = round_binary64 d (10 ^ k)"

text \<open>Sum and difference: the exact sum of \<open>m1 * 2 ^ e1\<close> and \<open>m2 * 2 ^ e2\<close>, rounded once.\<close>

definition fadd :: "binary64 \<Rightarrow> binary64 \<Rightarrow> binary64" where
  "fadd x y =
    (case x of (m1, e1) \<Rightarrow> case y of (m2, e2) \<Rightarrow>
       let e = min e1 e2;
           p = m1 * 2 ^ nat (e1 - e) + m2 * 2 ^ nat (e2 - e)
       in if 0 \<le> e then round_binary64 (p * 2 ^ nat e) 1
          else round_binary64 p (2 ^ nat (- e)))"

definition fsub :: "binary64 \<Rightarrow> binary64 \<Rightarrow> binary64" where
  "fsub x y = (case y of (m2, e2) \<Rightarrow> fadd x (- m2, e2))"

definition fless :: "binary64 \<Rightarrow> binary64 \<Rightarrow> bool" where
  "fless x y =
    (case x of (m1, e1) \<Rightarrow> case y of (m2, e2) \<Rightarrow>
       let e = min e1 e2 in m1 * 2 ^ nat (e1 - e) < m2 * 2 ^ nat (e2 - e))"

text \<open>Python's \<open>min(a, b)\<close> and \<open>max(a, b)\<close> keep \<open>a\<close> unless \<open>b\<close> is strictly smaller, or
  strictly larger.\<close>

definition py_min :: "binary64 \<Rightarrow> binary64 \<Rightarrow> binary64" where
  "py_min a b = (if fless b a then b else a)"

definition py_max :: "binary64 \<Rightarrow> binary64 \<Rightarrow> binary64" where
  "py_max a b = (if fless a b then b else a)"

text \<open>Lines 61 to 91 in double precision. The rows are those of the tables: a field of type
  \<open>real\<close> holds the value of the float64 stored there, and is compared with the value of the
  literal. \<open>risk_score\<close> starts as the integer 0, which the first \<open>-=\<close> or \<open>+=\<close> converts
  exactly.\<close>

definition risk_adjustments64 :: "borrower_row \<Rightarrow> alt_row \<Rightarrow> binary64" where
  "risk_adjustments64 row alt =
    (let risk_score = (0, 0);
         risk_score = (if 25 \<le> age row \<and> age row \<le> 45 then fsub risk_score (literal 1 1)
                       else fadd risk_score (literal 5 2));
         risk_score = (if income row > 50000 then fsub risk_score (literal 15 2)
                       else if income row < 25000 then fadd risk_score (literal 2 1)
                       else risk_score);
         risk_score = (if employment_type row = ''Salaried'' then fsub risk_score (literal 1 1)
                       else if employment_type row = ''Self-Employed''
                         then fadd risk_score (literal 5 2)
                       else risk_score);
         risk_score = (if utility_bill_payment_consistency alt > valof (literal 8 1)
                         then fsub risk_score (literal 1 1)
                       else risk_score);
         risk_score = (if upi_transactions_monthly alt > 30 then fsub risk_score (literal 5 2)
                       else risk_score);
         risk_score = (if location_stability_score alt > valof (literal 7 1)
                         then fsub risk_score (literal 8 2)
                       else risk_score);
         risk_score = (if credit_history_months row > 24 then fsub risk_score (literal 1 1)
                       else risk_score)
     in risk_score)"

text \<open>Lines 94 and 96 for the variate \<open>noise\<close> that \<open>np.random.normal(0, 0.1)\<close> returns:
  \<open>risk_score\<close> after line 94, the sum \<open>0.15 + risk_score\<close> that line 96 clamps, and the value
  returned.\<close>

definition risk_score64 :: "borrower_row \<Rightarrow> alt_row \<Rightarrow> binary64 \<Rightarrow> binary64" where
  "risk_score64 row alt noise = fadd (risk_adjustments64 row alt) noise"

definition raw_score64 :: "borrower_row \<Rightarrow> alt_row \<Rightarrow> binary64 \<Rightarrow> binary64" where
  "raw_score64 row alt noise = fadd (literal 15 2) (risk_score64 row alt noise)"

definition calculate_default_probability64 ::
  "borrower_row \<Rightarrow> alt_row \<Rightarrow> binary64 \<Rightarrow> binary64" where
  "calculate_default_probability64 row alt noise =
    py_max (literal 2 2) (py_min (literal 95 2) (raw_score64 row alt noise))"

subsection \<open>Identifiers\<close>

text \<open>\<open>str(i)\<close> for a non-negative integer, and \<open>s.zfill(width)\<close> for a string without a
  sign (the only strings the script pads).\<close>

definition digit_char :: "nat \<Rightarrow> char" where
  "digit_char d = char_of (48 + d)"

fun str_nat :: "nat \<Rightarrow> string" where
  "str_nat i = (if i < 10 then [digit_char i] else str_nat (i div 10) @ [digit_char (i mod 10)])"

declare str_nat.simps [simp del]

definition zfill :: "string \<Rightarrow> nat \<Rightarrow> string" where
  "zfill s width = replicate (width - length s) CHR ''0'' @ s"

definition make_borrower_id :: "nat \<Rightarrow> string" where
  "make_borrower_id i = ''BRW'' @ zfill (str_nat i) 6"

definition make_loan_id :: "nat \<Rightarrow> string" where
  "make_loan_id i = ''LN'' @ zfill (str_nat i) 8"



subsection \<open>The borrower table (lines 15 to 33)\<close>

text \<open>A DataFrame is the list of its rows; every column drawn has \<open>n_borrowers\<close> entries.\<close>

definition make_borrower_df :: "'s np_random \<Rightarrow> nat \<Rightarrow> 's \<Rightarrow> borrower_row list \<times> 's" where
  "make_borrower_df G n_borrowers s0 =
    (case draws (normal G 35 10) n_borrowers s0 of (age_f, s1) \<Rightarrow>
     case draws (lognormal G 10.5 0.8) n_borrowers s1 of (income_f, s2) \<Rightarrow>
     case draws (choice_str G [''Salaried'', ''Self-Employed'', ''Business Owner'', ''Freelancer'']
                   [0.4, 0.3, 0.2, 0.1]) n_borrowers s2 of (employment, s3) \<Rightarrow>
     case draws (choice_str G [''Tier 1'', ''Tier 2'', ''Tier 3''] [0.3, 0.4, 0.3])
                   n_borrowers s3 of (tier, s4) \<Rightarrow>
     case draws (choice_str G [''Graduate'', ''Post-Graduate'', ''Undergraduate'', ''Diploma'']
                   [0.4, 0.25, 0.25, 0.1]) n_borrowers s4 of (edu, s5) \<Rightarrow>
     case draws (poisson G 1.2) n_borrowers s5 of (loans, s6) \<Rightarrow>
     case draws (exponential G 24) n_borrowers s6 of (history_f, s7) \<Rightarrow>
     case draws (exponential G 36) n_borrowers s7 of (bank_f, s8) \<Rightarrow>
     (let ids = map make_borrower_id [1..<n_borrowers + 1];
          age_c = clip (map astype_int age_f) 18 70;
          income_c = clip (map astype_int income_f) 15000 2000000;
          history_c = clip (map astype_int history_f) 0 120;
          bank_c = clip (map astype_int bank_f) 3 240
      in (map (\<lambda>i. \<lparr>borrower_id = ids ! i, age = age_c ! i, income = income_c ! i,
                      employment_type = employment ! i, city_tier = tier ! i,
                      education = edu ! i, existing_loans = loans ! i,
                      credit_history_months = history_c ! i,
                      bank_account_age_months = bank_c ! i\<rparr>) [0..<n_borrowers], s8)))"

subsection \<open>The alternative-data table (lines 40 to 53)\<close>

definition make_alt_data_df ::
  "'s np_random \<Rightarrow> borrower_row list \<Rightarrow> nat \<Rightarrow> 's \<Rightarrow> alt_row list \<times> 's" where
  "make_alt_data_df G borrower_df n_borrowers s0 =
    (case draws (poisson G 45) n_borrowers s0 of (upi, s1) \<Rightarrow>
     case draws (beta G 8 2) n_borrowers s1 of (utility, s2) \<Rightarrow>
     case draws (binomial G 12 0.7) n_borrowers s2 of (gst, s3) \<Rightarrow>
     case draws (poisson G 6) n_borrowers s3 of (recharge, s4) \<Rightarrow>
     case draws (poisson G 8) n_borrowers s4 of (ecommerce, s5) \<Rightarrow>
     case draws (lognormal G 6 1.5) n_borrowers s5 of (wallet_f, s6) \<Rightarrow>
     case draws (poisson G 2) n_borrowers s6 of (mentions, s7) \<Rightarrow>
     case draws (exponential G 30) n_borrowers s7 of (usage_f, s8) \<Rightarrow>
     case draws (beta G 7 3) n_borrowers s8 of (stability, s9) \<Rightarrow>
     (let ids = map borrower_id borrower_df;
          wallet = map astype_int wallet_f;
          usage = map astype_int usage_f
      in (map (\<lambda>i. \<lparr>alt_borrower_id = ids ! i, upi_transactions_monthly = upi ! i,
                      utility_bill_payment_consistency = utility ! i,
                      gst_returns_filed = gst ! i, mobile_recharge_frequency = recharge ! i,
                      ecommerce_transactions_monthly = ecommerce ! i,
                      digital_wallet_balance_avg = wallet ! i,
                      social_media_financial_mentions = mentions ! i,
                      app_usage_financial_minutes_daily = usage ! i,
                      location_stability_score = stability ! i\<rparr>) [0..<n_borrowers], s9)))"

subsection \<open>Default probabilities (lines 99 to 102)\<close>

fun default_probs_loop ::
  "'s np_random \<Rightarrow> borrower_row list \<Rightarrow> alt_row list \<Rightarrow> nat list \<Rightarrow> 's \<Rightarrow> real list \<times> 's" where
  "default_probs_loop G borrower_df alt_data_df [] s = ([], s)"
| "default_probs_loop G borrower_df alt_data_df (i # rest) s =
     (case calculate_default_probability G (borrower_df ! i) (alt_data_df ! i) s of
        (prob, s1) \<Rightarrow>
          (case default_probs_loop G borrower_df alt_data_df rest s1 of
             (probs, s2) \<Rightarrow> (prob # probs, s2)))"

subsection \<open>The loan table (lines 104 to 123)\<close>

record loan_row =
  loan_id :: string
  loan_borrower_id :: string
  loan_amount :: int
  loan_tenure_months :: int
  interest_rate :: real
  loan_purpose :: string
  application_date :: int
  default_probability :: real
  is_default :: bool
  credit_score_traditional :: int

text \<open>\<open>timedelta(days=d)\<close> in microseconds, the unit of the clock.\<close>

definition timedelta_days :: "int \<Rightarrow> int" where
  "timedelta_days d = d * 86400000000"

text \<open>Line 112: one reading of the clock and one \<open>randint(1, 365)\<close> per row; \<open>now k\<close> is the
  reading of the k-th call of \<open>datetime.now()\<close>, the only calls of the script.\<close>

fun application_dates ::
  "'s np_random \<Rightarrow> (nat \<Rightarrow> int) \<Rightarrow> nat list \<Rightarrow> 's \<Rightarrow> int list \<times> 's" where
  "application_dates G now [] s = ([], s)"
| "application_dates G now (k # rest) s =
     (case randint G 1 365 s of
        (d, s1) \<Rightarrow>
          (case application_dates G now rest s1 of
             (dates, s2) \<Rightarrow> ((now k - timedelta_days d) # dates, s2)))"

text \<open>Line 114: one uniform draw per stored probability.\<close>

fun sample_defaults :: "'s np_random \<Rightarrow> real list \<Rightarrow> 's \<Rightarrow> bool list \<times> 's" where
  "sample_defaults G [] s = ([], s)"
| "sample_defaults G (prob # rest) s =
     (case random G s of
        (u, s1) \<Rightarrow>
          (case sample_defaults G rest s1 of
             (outcomes, s2) \<Rightarrow> ((u < prob) # outcomes, s2)))"

definition make_loan_df ::
  "'s np_random \<Rightarrow> (nat \<Rightarrow> int) \<Rightarrow> borrower_row list \<Rightarrow> real list \<Rightarrow> nat \<Rightarrow> 's
     \<Rightarrow> loan_row list \<times> 's" where
  "make_loan_df G now borrower_df default_probs n_borrowers s0 =
    (case draws (lognormal G 10 0.8) n_borrowers s0 of (amount_f, s1) \<Rightarrow>
     case draws (choice_int G [12, 18, 24, 36, 48] [0.2, 0.2, 0.3, 0.2, 0.1])
                   n_borrowers s1 of (tenure, s2) \<Rightarrow>
     case draws (normal G 16 3) n_borrowers s2 of (rate, s3) \<Rightarrow>
     case draws (choice_str G
                   [''Personal'', ''Business'', ''Education'', ''Medical'', ''Home Improvement'']
                   [0.4, 0.25, 0.15, 0.1, 0.1]) n_borrowers s3 of (purpose, s4) \<Rightarrow>
     case application_dates G now [0..<n_borrowers] s4 of (dates, s5) \<Rightarrow>
     case sample_defaults G default_probs s5 of (outcomes, s6) \<Rightarrow>
     case draws (normal G 650 100) n_borrowers s6 of (score_f, s7) \<Rightarrow>
     (let lids = map make_loan_id [1..<n_borrowers + 1];
          bids = map borrower_id borrower_df;
          amount_c = clip (map astype_int amount_f) 10000 1000000;
          rate_c = clip rate 8 25;
          score_c = clip (map astype_int score_f) 300 850
      in (map (\<lambda>i. \<lparr>loan_id = lids ! i, loan_borrower_id = bids ! i,
                      loan_amount = amount_c ! i, loan_tenure_months = tenure ! i,
                      interest_rate = rate_c ! i, loan_purpose = purpose ! i,
                      application_date = dates ! i, default_probability = default_probs ! i,
                      is_default = outcomes ! i,
                      credit_score_traditional = score_c ! i\<rparr>) [0..<n_borrowers], s7)))"

subsection \<open>The three tables of a run\<close>

record tables =
  borrower_df :: "borrower_row list"
  alt_data_df :: "alt_row list"
  loan_df :: "loan_row list"

text \<open>Lines 9 to 123 for a seed and a record count (the script fixes them to 42 and 1000).\<close>

definition generate :: "'s np_random \<Rightarrow> int \<Rightarrow> nat \<Rightarrow> (nat \<Rightarrow> int) \<Rightarrow> tables" where
  "generate G sd n_borrowers now =
    (case make_borrower_df G n_borrowers (seed G sd) of (bdf, s1) \<Rightarrow>
     case make_alt_data_df G bdf n_borrowers s1 of (adf, s2) \<Rightarrow>
     case default_probs_loop G bdf adf [0..<n_borrowers] s2 of (default_probs, s3) \<Rightarrow>
     case make_loan_df G now bdf default_probs n_borrowers s3 of (ldf, s4) \<Rightarrow>
       \<lparr>borrower_df = bdf, alt_data_df = adf, loan_df = ldf\<rparr>)"

text \<open>The generator state when the scoring loop of line 100 starts, and when the loan
  columns of line 104 start.\<close>

definition scoring_state :: "'s np_random \<Rightarrow> int \<Rightarrow> nat \<Rightarrow> 's" where
  "scoring_state G sd n_borrowers =
    (case make_borrower_df G n_borrowers (seed G sd) of (bdf, s1) \<Rightarrow>
       snd (make_alt_data_df G bdf n_borrowers s1))"

definition loans_state :: "'s np_random \<Rightarrow> int \<Rightarrow> nat \<Rightarrow> 's" where
  "loans_state G sd n_borrowers =
    (case make_borrower_df G n_borrowers (seed G sd) of (bdf, s1) \<Rightarrow>
     case make_alt_data_df G bdf n_borrowers s1 of (adf, s2) \<Rightarrow>
       snd (default_probs_loop G bdf adf [0..<n_borrowers] s2))"

subsection \<open>Writing the artifacts (lines 130 to 196)\<close>

text \<open>The file system maps a path to the content written there. Whether a write succeeds is
  decided by the environment, the parameter \<open>writable\<close>; a write that fails raises, and the
  script handles no exception, so the run ends there with the file system as it is. The
  text of the guideline document is a constant of the script, taken as a parameter.\<close>

datatype artifact =
    BorrowerCsv "borrower_row list"
  | AltCsv "alt_row list"
  | LoanCsv "loan_row list"
  | Text string

datatype error = WriteFailed string

type_synonym fs = "string \<rightharpoonup> artifact"

definition write_file :: "(string \<Rightarrow> bool) \<Rightarrow> string \<Rightarrow> artifact \<Rightarrow> fs \<Rightarrow> error + fs" where
  "write_file writable path content files =
    (if writable path then Inr (files(path \<mapsto> content)) else Inl (WriteFailed path))"

text \<open>The result is the file system at the end of the run and the exception that ended it,
  if any.\<close>

definition save_outputs ::
  "(string \<Rightarrow> bool) \<Rightarrow> tables \<Rightarrow> string \<Rightarrow> fs \<Rightarrow> error option \<times> fs" where
  "save_outputs writable t data_generation_guidelines f0 =
    (case write_file writable ''sample_borrower_data.csv'' (BorrowerCsv (borrower_df t)) f0 of
       Inl e \<Rightarrow> (Some e, f0)
     | Inr f1 \<Rightarrow>
    (case write_file writable ''sample_alternative_data.csv'' (AltCsv (alt_data_df t)) f1 of
       Inl e \<Rightarrow> (Some e, f1)
     | Inr f2 \<Rightarrow>
    (case write_file writable ''sample_loan_data.csv'' (LoanCsv (loan_df t)) f2 of
       Inl e \<Rightarrow> (Some e, f2)
     | Inr f3 \<Rightarrow>
    (case write_file writable ''data_generation_guidelines.txt''
            (Text data_generation_guidelines) f3 of
       Inl e \<Rightarrow> (Some e, f3)
     | Inr f4 \<Rightarrow> (None, f4)))))"

definition output_paths :: "string list" where
  "output_paths = [''sample_borrower_data.csv'', ''sample_alternative_data.csv'',
                   ''sample_loan_data.csv'', ''data_generation_guidelines.txt'']"

subsection \<open>The call of the heuristic in the state of the program\<close>




subsection \<open>The contract of the samplers\<close>



subsection \<open>A small generator for concrete runs\<close>

text \<open>A deterministic stand-in for the numpy generator, used to run the model on concrete
  inputs: its state counts the draws made so far, and every variate is a fixed function of
  that count within the support of its distribution.\<close>

definition counter_rng :: "nat np_random" where
  "counter_rng =
    \<lparr>seed = (\<lambda>sd. 0),
     normal = (\<lambda>mu sigma s. (mu + sigma * real (s mod 3), Suc s)),
     lognormal = (\<lambda>mu sigma s. (1 + 30000 * real (s mod 3), Suc s)),
     choice_str = (\<lambda>a p s. (a ! (s mod length a), Suc s)),
     choice_int = (\<lambda>a p s. (a ! (s mod length a), Suc s)),
     poisson = (\<lambda>lam s. (int (s mod 50), Suc s)),
     exponential = (\<lambda>scale s. (scale * real (s mod 4), Suc s)),
     beta = (\<lambda>a b s. (real (s mod 5) / 4, Suc s)),
     binomial = (\<lambda>n p s. (int (s mod nat (n + 1)), Suc s)),
     randint = (\<lambda>lo hi s. (lo + int (s mod nat (hi - lo)), Suc s)),
     random = (\<lambda>s. (real (s mod 10) / 10, Suc s))\<rparr>"

text \<open>The same generator with lognormal variates of \<open>10 ^ 30\<close>, a value in the support of
  every lognormal distribution.\<close>

definition big_rng :: "nat np_random" where
  "big_rng = counter_rng\<lparr>lognormal := (\<lambda>mu sigma s. (10 ^ 30, Suc s))\<rparr>"

text \<open>A clock that reads \<open>t\<close> at every call.\<close>

definition clock_at :: "int \<Rightarrow> nat \<Rightarrow> int" where
  "clock_at t k = t"

subsection \<open>The scenario of the specification\<close>

definition scenario_row :: borrower_row where
  "scenario_row =
    \<lparr>borrower_id = ''BRW000001'', age = 35, income = 60000, employment_type = ''Salaried'',
     city_tier = ''Tier 1'', education = ''Graduate'', existing_loans = 1,
     credit_history_months = 30, bank_account_age_months = 36\<rparr>"

definition scenario_alt :: alt_row where
  "scenario_alt =
    \<lparr>alt_borrower_id = ''BRW000001'', upi_transactions_monthly = 40,
     utility_bill_payment_consistency = 0.85, gst_returns_filed = 8,
     mobile_recharge_frequency = 6, ecommerce_transactions_monthly = 8,
     digital_wallet_balance_avg = 400, social_media_financial_mentions = 2,
     app_usage_financial_minutes_daily = 30, location_stability_score = 0.75\<rparr>"

text \<open>The same record with the two float64 fields as Python reads the literals.\<close>

definition scenario_alt64 :: alt_row where
  "scenario_alt64 =
    scenario_alt\<lparr>utility_bill_payment_consistency := valof (literal 85 2),
                 location_stability_score := valof (literal 75 2)\<rparr>"


text \<open>An environment in which every write succeeds but the one of the loan table.\<close>

definition loans_unwritable :: "string \<Rightarrow> bool" where
  "loans_unwritable path \<longleftrightarrow> path \<noteq> ''sample_loan_data.csv''"

section \<open>Properties of the scoring heuristic\<close>

lemma counter_rng_simps [simp]:
  "seed counter_rng sd = 0"
  "normal counter_rng mu sigma s = (mu + sigma * real (s mod 3), Suc s)"
  "lognormal counter_rng mu sigma s = (1 + 30000 * real (s mod 3), Suc s)"
  "choice_str counter_rng a p s = (a ! (s mod length a), Suc s)"
  "choice_int counter_rng b p s = (b ! (s mod length b), Suc s)"
  "poisson counter_rng lam s = (int (s mod 50), Suc s)"
  "exponential counter_rng scale s = (scale * real (s mod 4), Suc s)"
  "beta counter_rng x y s = (real (s mod 5) / 4, Suc s)"
  "binomial counter_rng n q s = (int (s mod nat (n + 1)), Suc s)"
  "randint counter_rng lo hi s = (lo + int (s mod nat (hi - lo)), Suc s)"
  "random counter_rng s = (real (s mod 10) / 10, Suc s)"
  by (simp_all add: counter_rng_def)

lemma calculate_default_probability_eq:
  "calculate_default_probability G row alt s =
     (bounded (risk_adjustments row alt + fst (normal G 0 0.1 s)), snd (normal G 0 0.1 s))"
  by (simp add: calculate_default_probability_def case_prod_beta)

lemma if_adjust:
  "(if c then r - a else r + b) = r + (if c then - a else b)"
  "(if c then r - a else if d then r + b else r) = r + (if c then - a else if d then b else 0)"
  "(if c then r - a else r) = r + (if c then - a else 0)"
  for r :: real
  by simp_all

text \<open>The accumulated score is the sum of the seven adjustments.\<close>

lemma risk_adjustments_sum:
  "risk_adjustments row alt =
      (if 25 \<le> age row \<and> age row \<le> 45 then - 0.1 else 0.05)
      + (if income row > 50000 then - 0.15 else if income row < 25000 then 0.2 else 0)
      + (if employment_type row = ''Salaried'' then - 0.1
         else if employment_type row = ''Self-Employed'' then 0.05 else 0)
      + (if utility_bill_payment_consistency alt > 0.8 then - 0.1 else 0)
      + (if upi_transactions_monthly alt > 30 then - 0.05 else 0)
      + (if location_stability_score alt > 0.7 then - 0.08 else 0)
      + (if credit_history_months row > 24 then - 0.1 else 0)"
  unfolding risk_adjustments_def Let_def if_adjust
  by (simp split del: if_split)

lemma bounded_mono: "x \<le> y \<Longrightarrow> bounded x \<le> bounded y"
  by (simp add: bounded_def max_def min_def)

lemma bounded_range: "0.02 \<le> bounded x \<and> bounded x \<le> 0.95"
  by (simp add: bounded_def max_def min_def)

text \<open>
  Claim C4. The age bounds are inclusive and the income bounds strict. At age 25 or 45,
  whatever the income, the age adjustment is the -0.10 of the middle branch (not +0.05):
  the accumulated score is -0.10 plus the other six adjustments. At income 50000 or 25000,
  whatever the age, there is no income adjustment (neither -0.15 nor +0.20): the accumulated
  score is the sum of the other six adjustments.
\<close>

theorem boundary_branches:
  "(age row = 25 \<or> age row = 45 \<longrightarrow>
      risk_adjustments row alt =
        - 0.1
        + (if income row > 50000 then - 0.15 else if income row < 25000 then 0.2 else 0)
        + (if employment_type row = ''Salaried'' then - 0.1
           else if employment_type row = ''Self-Employed'' then 0.05 else 0)
        + (if utility_bill_payment_consistency alt > 0.8 then - 0.1 else 0)
        + (if upi_transactions_monthly alt > 30 then - 0.05 else 0)
        + (if location_stability_score alt > 0.7 then - 0.08 else 0)
        + (if credit_history_months row > 24 then - 0.1 else 0))
   \<and> (income row = 50000 \<or> income row = 25000 \<longrightarrow>
      risk_adjustments row alt =
        (if 25 \<le> age row \<and> age row \<le> 45 then - 0.1 else 0.05)
        + (if employment_type row = ''Salaried'' then - 0.1
           else if employment_type row = ''Self-Employed'' then 0.05 else 0)
        + (if utility_bill_payment_consistency alt > 0.8 then - 0.1 else 0)
        + (if upi_transactions_monthly alt > 30 then - 0.05 else 0)
        + (if location_stability_score alt > 0.7 then - 0.08 else 0)
        + (if credit_history_months row > 24 then - 0.1 else 0))"
proof (intro conjI impI)
  assume "age row = 25 \<or> age row = 45"
  then have a: "(if 25 \<le> age row \<and> age row \<le> 45 then - 0.1 else 0.05) = (- 0.1 :: real)"
    by auto
  show "risk_adjustments row alt =
        - 0.1
        + (if income row > 50000 then - 0.15 else if income row < 25000 then 0.2 else 0)
        + (if employment_type row = ''Salaried'' then - 0.1
           else if employment_type row = ''Self-Employed'' then 0.05 else 0)
        + (if utility_bill_payment_consistency alt > 0.8 then - 0.1 else 0)
        + (if upi_transactions_monthly alt > 30 then - 0.05 else 0)
        + (if location_stability_score alt > 0.7 then - 0.08 else 0)
        + (if credit_history_months row > 24 then - 0.1 else 0)"
    unfolding risk_adjustments_sum a by (rule refl)
next
  assume "income row = 50000 \<or> income row = 25000"
  then have b: "(if income row > 50000 then - 0.15 else if income row < 25000 then 0.2 else 0)
            = (0 :: real)"
    by auto
  show "risk_adjustments row alt =
        (if 25 \<le> age row \<and> age row \<le> 45 then - 0.1 else 0.05)
        + (if employment_type row = ''Salaried'' then - 0.1
           else if employment_type row = ''Self-Employed'' then 0.05 else 0)
        + (if utility_bill_payment_consistency alt > 0.8 then - 0.1 else 0)
        + (if upi_transactions_monthly alt > 30 then - 0.05 else 0)
        + (if location_stability_score alt > 0.7 then - 0.08 else 0)
        + (if credit_history_months row > 24 then - 0.1 else 0)"
    unfolding risk_adjustments_sum b by (simp split del: if_split)
qed

text \<open>At age 25 with income 60000 the score is -0.68, the -0.10 of the age branch included;
  at income 25000 with age 35 it is -0.53, with no income term; at age 45 and income 50000
  it is -0.53 as well.\<close>

theorem boundary_branches_witness:
  "risk_adjustments (scenario_row\<lparr>age := 25\<rparr>) scenario_alt = - 0.68
   \<and> risk_adjustments (scenario_row\<lparr>income := 25000\<rparr>) scenario_alt = - 0.53
   \<and> risk_adjustments (scenario_row\<lparr>age := 45, income := 50000\<rparr>) scenario_alt = - 0.53"
  using boundary_branches [of "scenario_row\<lparr>age := 25\<rparr>" scenario_alt]
    boundary_branches [of "scenario_row\<lparr>income := 25000\<rparr>" scenario_alt]
    boundary_branches [of "scenario_row\<lparr>age := 45, income := 50000\<rparr>" scenario_alt]
  by (simp add: scenario_row_def scenario_alt_def)

text \<open>
  Claim C5. With the noise drawn at line 94 equal to 0 and every other input fixed, the
  probability returned for a utility payment consistency of 0.9 is at most the one
  returned for 0.5.
\<close>

theorem utility_consistency_monotone:
  assumes "fst (normal G 0 0.1 s) = 0"
  shows "fst (calculate_default_probability G row
                (alt\<lparr>utility_bill_payment_consistency := 0.9\<rparr>) s)
       \<le> fst (calculate_default_probability G row
                (alt\<lparr>utility_bill_payment_consistency := 0.5\<rparr>) s)"
proof -
  have "risk_adjustments row (alt\<lparr>utility_bill_payment_consistency := 0.9\<rparr>)
      = risk_adjustments row (alt\<lparr>utility_bill_payment_consistency := 0.5\<rparr>) - 0.1"
    unfolding risk_adjustments_sum by (simp split del: if_split)
  then have "risk_adjustments row (alt\<lparr>utility_bill_payment_consistency := 0.9\<rparr>) + 0
      \<le> risk_adjustments row (alt\<lparr>utility_bill_payment_consistency := 0.5\<rparr>) + 0"
    by simp
  then show ?thesis
    unfolding calculate_default_probability_eq assms fst_conv by (rule bounded_mono)
qed

theorem utility_consistency_monotone_witness:
  "fst (normal counter_rng 0 0.1 0) = 0
   \<and> fst (calculate_default_probability counter_rng scenario_row
            (scenario_alt\<lparr>utility_bill_payment_consistency := 0.9\<rparr>) 0)
     \<le> fst (calculate_default_probability counter_rng scenario_row
            (scenario_alt\<lparr>utility_bill_payment_consistency := 0.5\<rparr>) 0)"
proof -
  have h: "fst (normal counter_rng 0 0.1 0) = 0" by simp
  from utility_consistency_monotone [OF h, of scenario_row scenario_alt] h
  show ?thesis by blast
qed



section \<open>Properties of the generated tables\<close>

lemma length_draws [simp]: "length (fst (draws f n s)) = n"
  by (induction n arbitrary: s) (simp_all add: case_prod_beta)



lemma clip_length [simp]: "length (clip a lo hi) = length a"
  by (simp add: clip_def)

lemma clip_nth: "i < length a \<Longrightarrow> clip a lo hi ! i = min (max (a ! i) lo) hi"
  by (simp add: clip_def)

lemma clip_bounds:
  "i < length a \<Longrightarrow> lo \<le> hi \<Longrightarrow> lo \<le> clip a lo hi ! i \<and> clip a lo hi ! i \<le> hi"
  by (simp add: clip_nth)

lemma length_make_borrower_df [simp]: "length (fst (make_borrower_df G n s)) = n"
  by (simp add: make_borrower_df_def case_prod_beta Let_def)

lemma length_make_alt_data_df [simp]: "length (fst (make_alt_data_df G b n s)) = n"
  by (simp add: make_alt_data_df_def case_prod_beta Let_def)

lemma length_make_loan_df [simp]: "length (fst (make_loan_df G now b p n s)) = n"
  by (simp add: make_loan_df_def case_prod_beta Let_def)

lemma length_default_probs_loop [simp]:
  "length (fst (default_probs_loop G b a ks s)) = length ks"
  by (induction ks arbitrary: s) (simp_all add: case_prod_beta)

lemma default_probs_loop_range:
  "p \<in> set (fst (default_probs_loop G b a ks s)) \<Longrightarrow> 0.02 \<le> p \<and> p \<le> 0.95"
proof (induction ks arbitrary: s)
  case Nil
  then show ?case by simp
next
  case (Cons k ks)
  then show ?case
    using bounded_range
    by (auto simp add: case_prod_beta calculate_default_probability_eq)
qed

lemma borrower_row_bounds:
  assumes "i < n"
  shows "18 \<le> age (fst (make_borrower_df G n s) ! i) \<and> age (fst (make_borrower_df G n s) ! i) \<le> 70
       \<and> 15000 \<le> income (fst (make_borrower_df G n s) ! i)
       \<and> income (fst (make_borrower_df G n s) ! i) \<le> 2000000
       \<and> 0 \<le> credit_history_months (fst (make_borrower_df G n s) ! i)
       \<and> credit_history_months (fst (make_borrower_df G n s) ! i) \<le> 120
       \<and> 3 \<le> bank_account_age_months (fst (make_borrower_df G n s) ! i)
       \<and> bank_account_age_months (fst (make_borrower_df G n s) ! i) \<le> 240"
  using assms by (simp add: make_borrower_df_def case_prod_beta Let_def clip_nth)

lemma loan_row_fields:
  assumes "i < n"
  shows "10000 \<le> loan_amount (fst (make_loan_df G now b p n s) ! i)
       \<and> loan_amount (fst (make_loan_df G now b p n s) ! i) \<le> 1000000
       \<and> 8 \<le> interest_rate (fst (make_loan_df G now b p n s) ! i)
       \<and> interest_rate (fst (make_loan_df G now b p n s) ! i) \<le> 25
       \<and> 300 \<le> credit_score_traditional (fst (make_loan_df G now b p n s) ! i)
       \<and> credit_score_traditional (fst (make_loan_df G now b p n s) ! i) \<le> 850
       \<and> default_probability (fst (make_loan_df G now b p n s) ! i) = p ! i"
  using assms by (simp add: make_loan_df_def case_prod_beta Let_def clip_nth)

lemma generate_tables:
  "borrower_df (generate G sd n now) = fst (make_borrower_df G n (seed G sd))"
  "alt_data_df (generate G sd n now) =
     fst (make_alt_data_df G (fst (make_borrower_df G n (seed G sd))) n
            (snd (make_borrower_df G n (seed G sd))))"
  "loan_df (generate G sd n now) =
     fst (make_loan_df G now (borrower_df (generate G sd n now))
            (fst (default_probs_loop G (borrower_df (generate G sd n now))
                    (alt_data_df (generate G sd n now)) [0..<n] (scoring_state G sd n)))
            n (loans_state G sd n))"
  by (simp_all add: generate_def scoring_state_def loans_state_def case_prod_beta)

lemma draws_snd_Suc: "snd (draws f (Suc n) s) = snd (draws f n (snd (f s)))"
  by (simp add: case_prod_beta)

lemma default_probs_loop_nth:
  "i < length ks \<Longrightarrow>
     fst (default_probs_loop G b a ks s) ! i =
       bounded (risk_adjustments (b ! (ks ! i)) (a ! (ks ! i))
                + fst (normal G 0 0.1 (snd (draws (normal G 0 0.1) i s))))"
proof (induction ks arbitrary: i s)
  case Nil
  then show ?case by simp
next
  case (Cons k ks)
  show ?case
  proof (cases i)
    case 0
    then show ?thesis by (simp add: case_prod_beta calculate_default_probability_eq)
  next
    case (Suc j)
    with Cons.prems have "j < length ks" by simp
    from Cons.IH [OF this, of "snd (normal G 0 0.1 s)"] Suc show ?thesis
      by (simp add: case_prod_beta calculate_default_probability_eq)
  qed
qed

lemma length_sample_defaults [simp]: "length (fst (sample_defaults G ps s)) = length ps"
  by (induction ps arbitrary: s) (simp_all add: case_prod_beta)

lemma sample_defaults_nth:
  "i < length ps \<Longrightarrow>
     fst (sample_defaults G ps s) ! i = (fst (random G (snd (draws (random G) i s))) < ps ! i)"
proof (induction ps arbitrary: i s)
  case Nil
  then show ?case by simp
next
  case (Cons p ps)
  show ?case
  proof (cases i)
    case 0
    then show ?thesis by (simp add: case_prod_beta)
  next
    case (Suc j)
    with Cons.prems have "j < length ps" by simp
    from Cons.IH [OF this, of "snd (random G s)"] Suc show ?thesis
      by (simp add: case_prod_beta)
  qed
qed

lemma loan_row_outcome:
  assumes "length p = n"
  shows "\<exists>u. \<forall>i<n. is_default (fst (make_loan_df G now b p n s) ! i)
            = (fst (random G (snd (draws (random G) i u))) < p ! i)"
  using assms
  by (auto simp add: make_loan_df_def case_prod_beta Let_def sample_defaults_nth)

text \<open>
  Claim C6. For any generator, seed, clock and record count n, the borrower and loan tables
  have n rows each, and in every row: age is in [18,70], income in [15000,2000000], credit
  history months in [0,120], bank account age months in [3,240], loan amount in
  [10000,1000000], interest rate in [8,25], traditional credit score in [300,850] and
  default probability in [0.02,0.95].
\<close>

theorem generated_rows_in_range:
  fixes G :: "'s np_random" and sd :: int and n :: nat and now :: "nat \<Rightarrow> int"
  defines "t \<equiv> generate G sd n now"
  assumes "i < n"
  shows "length (borrower_df t) = n \<and> length (loan_df t) = n
    \<and> 18 \<le> age (borrower_df t ! i) \<and> age (borrower_df t ! i) \<le> 70
    \<and> 15000 \<le> income (borrower_df t ! i) \<and> income (borrower_df t ! i) \<le> 2000000
    \<and> 0 \<le> credit_history_months (borrower_df t ! i)
    \<and> credit_history_months (borrower_df t ! i) \<le> 120
    \<and> 3 \<le> bank_account_age_months (borrower_df t ! i)
    \<and> bank_account_age_months (borrower_df t ! i) \<le> 240
    \<and> 10000 \<le> loan_amount (loan_df t ! i) \<and> loan_amount (loan_df t ! i) \<le> 1000000
    \<and> 8 \<le> interest_rate (loan_df t ! i) \<and> interest_rate (loan_df t ! i) \<le> 25
    \<and> 300 \<le> credit_score_traditional (loan_df t ! i)
    \<and> credit_score_traditional (loan_df t ! i) \<le> 850
    \<and> 0.02 \<le> default_probability (loan_df t ! i)
    \<and> default_probability (loan_df t ! i) \<le> 0.95"
proof -
  let ?p = "fst (default_probs_loop G (borrower_df t) (alt_data_df t) [0..<n]
                   (scoring_state G sd n))"
  have l: "loan_df t = fst (make_loan_df G now (borrower_df t) ?p n (loans_state G sd n))"
    unfolding t_def by (rule generate_tables(3))
  have "?p ! i \<in> set ?p" using assms(2) by simp
  then have p: "0.02 \<le> ?p ! i \<and> ?p ! i \<le> 0.95" by (rule default_probs_loop_range)
  have b: "borrower_df t = fst (make_borrower_df G n (seed G sd))"
    unfolding t_def by (rule generate_tables(1))
  have len: "length (borrower_df t) = n \<and> length (loan_df t) = n"
    by (simp add: l b)
  show ?thesis
    using borrower_row_bounds [OF assms(2), of G "seed G sd"]
      loan_row_fields [OF assms(2), of G now "borrower_df t" ?p "loans_state G sd n"] p len
    unfolding l [symmetric] b [symmetric] by simp
qed

theorem generated_rows_in_range_witness:
  "length (borrower_df (generate counter_rng 42 1 (clock_at 0))) = 1
   \<and> 18 \<le> age (borrower_df (generate counter_rng 42 1 (clock_at 0)) ! 0)
   \<and> age (borrower_df (generate counter_rng 42 1 (clock_at 0)) ! 0) \<le> 70
   \<and> 10000 \<le> loan_amount (loan_df (generate counter_rng 42 1 (clock_at 0)) ! 0)
   \<and> default_probability (loan_df (generate counter_rng 42 1 (clock_at 0)) ! 0) \<le> 0.95"
  using generated_rows_in_range
    [where i = 0 and n = 1 and G = counter_rng and sd = 42 and now = "clock_at 0"]
  by simp

text \<open>
  Claim C2. In a run with n borrowers, for every borrower i the default probability stored
  in loan row i is \<open>clamp(0.15 + adjustments + noise, 0.02, 0.95)\<close>, where the adjustments are
  those of borrower row i and alternative-data row i and the noise is the i-th of the n
  consecutive \<open>normal(0, 0.1)\<close> draws of the scoring loop; it lies in [0.02, 0.95]; and the
  outcome stored in the same row is the strict comparison of the i-th of n consecutive
  uniform draws against exactly that stored probability.
\<close>

theorem outcome_sampled_from_stored_probability:
  fixes G :: "'s np_random" and sd :: int and n :: nat and now :: "nat \<Rightarrow> int"
  defines "t \<equiv> generate G sd n now"
  shows "\<exists>u. \<forall>i<n.
      default_probability (loan_df t ! i) =
        max 0.02 (min 0.95 (0.15 + (risk_adjustments (borrower_df t ! i) (alt_data_df t ! i)
          + fst (normal G 0 0.1 (snd (draws (normal G 0 0.1) i (scoring_state G sd n)))))))
    \<and> 0.02 \<le> default_probability (loan_df t ! i)
    \<and> default_probability (loan_df t ! i) \<le> 0.95
    \<and> is_default (loan_df t ! i) =
        (fst (random G (snd (draws (random G) i u))) < default_probability (loan_df t ! i))"
proof -
  let ?p = "fst (default_probs_loop G (borrower_df t) (alt_data_df t) [0..<n]
                   (scoring_state G sd n))"
  have l: "loan_df t = fst (make_loan_df G now (borrower_df t) ?p n (loans_state G sd n))"
    unfolding t_def by (rule generate_tables(3))
  have "length ?p = n" by simp
  from loan_row_outcome [OF this, of G now "borrower_df t" "loans_state G sd n"]
  obtain u where u: "\<forall>i<n. is_default (loan_df t ! i)
            = (fst (random G (snd (draws (random G) i u))) < ?p ! i)"
    unfolding l [symmetric] by blast
  have "\<forall>i<n.
      default_probability (loan_df t ! i) =
        max 0.02 (min 0.95 (0.15 + (risk_adjustments (borrower_df t ! i) (alt_data_df t ! i)
          + fst (normal G 0 0.1 (snd (draws (normal G 0 0.1) i (scoring_state G sd n)))))))
    \<and> 0.02 \<le> default_probability (loan_df t ! i)
    \<and> default_probability (loan_df t ! i) \<le> 0.95
    \<and> is_default (loan_df t ! i) =
        (fst (random G (snd (draws (random G) i u))) < default_probability (loan_df t ! i))"
  proof (intro allI impI)
    fix i assume i: "i < n"
    have d: "default_probability (loan_df t ! i) = ?p ! i"
      using loan_row_fields [OF i, of G now "borrower_df t" ?p "loans_state G sd n"]
      unfolding l [symmetric] by simp
    have "i < length [0..<n]" using i by simp
    from default_probs_loop_nth [OF this, of G "borrower_df t" "alt_data_df t"
        "scoring_state G sd n"] i
    have e: "?p ! i = bounded (risk_adjustments (borrower_df t ! i) (alt_data_df t ! i)
          + fst (normal G 0 0.1 (snd (draws (normal G 0 0.1) i (scoring_state G sd n)))))"
      by simp
    have r: "0.02 \<le> ?p ! i \<and> ?p ! i \<le> 0.95"
      unfolding e by (rule bounded_range)
    have o: "is_default (loan_df t ! i)
            = (fst (random G (snd (draws (random G) i u))) < ?p ! i)"
      using u i by blast
    show "default_probability (loan_df t ! i) =
        max 0.02 (min 0.95 (0.15 + (risk_adjustments (borrower_df t ! i) (alt_data_df t ! i)
          + fst (normal G 0 0.1 (snd (draws (normal G 0 0.1) i (scoring_state G sd n)))))))
    \<and> 0.02 \<le> default_probability (loan_df t ! i)
    \<and> default_probability (loan_df t ! i) \<le> 0.95
    \<and> is_default (loan_df t ! i) =
        (fst (random G (snd (draws (random G) i u))) < default_probability (loan_df t ! i))"
      using e [unfolded bounded_def] r o unfolding d by blast
  qed
  then show ?thesis by blast
qed

theorem outcome_sampled_from_stored_probability_witness:
  "\<exists>u. default_probability (loan_df (generate counter_rng 42 1 (clock_at 0)) ! 0) =
        max 0.02 (min 0.95 (0.15 +
          (risk_adjustments (borrower_df (generate counter_rng 42 1 (clock_at 0)) ! 0)
             (alt_data_df (generate counter_rng 42 1 (clock_at 0)) ! 0)
           + fst (normal counter_rng 0 0.1
                   (snd (draws (normal counter_rng 0 0.1) 0 (scoring_state counter_rng 42 1)))))))
    \<and> is_default (loan_df (generate counter_rng 42 1 (clock_at 0)) ! 0) =
        (fst (random counter_rng (snd (draws (random counter_rng) 0 u)))
          < default_probability (loan_df (generate counter_rng 42 1 (clock_at 0)) ! 0))"
proof -
  from outcome_sampled_from_stored_probability
    [where n = 1 and G = counter_rng and sd = 42 and now = "clock_at 0"]
  obtain u where "\<forall>i<(1::nat).
      default_probability (loan_df (generate counter_rng 42 1 (clock_at 0)) ! i) =
        max 0.02 (min 0.95 (0.15 +
          (risk_adjustments (borrower_df (generate counter_rng 42 1 (clock_at 0)) ! i)
             (alt_data_df (generate counter_rng 42 1 (clock_at 0)) ! i)
           + fst (normal counter_rng 0 0.1
                   (snd (draws (normal counter_rng 0 0.1) i (scoring_state counter_rng 42 1)))))))
    \<and> 0.02 \<le> default_probability (loan_df (generate counter_rng 42 1 (clock_at 0)) ! i)
    \<and> default_probability (loan_df (generate counter_rng 42 1 (clock_at 0)) ! i) \<le> 0.95
    \<and> is_default (loan_df (generate counter_rng 42 1 (clock_at 0)) ! i) =
        (fst (random counter_rng (snd (draws (random counter_rng) i u)))
          < default_probability (loan_df (generate counter_rng 42 1 (clock_at 0)) ! i))"
    by blast
  then show ?thesis by blast
qed

subsection \<open>Identifiers across the three tables\<close>















subsection \<open>The columns that are not clipped\<close>




lemma big_rng_simps [simp]:
  "seed big_rng sd = 0"
  "lognormal big_rng mu sigma s = (10 ^ 30, Suc s)"
  "poisson big_rng lam s = (int (s mod 50), Suc s)"
  "exponential big_rng scale s = (scale * real (s mod 4), Suc s)"
  "beta big_rng x y s = (real (s mod 5) / 4, Suc s)"
  "binomial big_rng n q s = (int (s mod nat (n + 1)), Suc s)"
  "normal big_rng mu sigma s = (mu + sigma * real (s mod 3), Suc s)"
  "choice_str big_rng a p s = (a ! (s mod length a), Suc s)"
  by (simp_all add: big_rng_def)





end
